theory Spec2Isabelle
  imports Main "HOL-Library.AList" "HOL-Library.Sublist"
begin

section \<open>The Harkness Helper template generator\<close>

text \<open>
  \<^verbatim>\<open>create_template.py\<close> is a straight-line script: it builds an openpyxl workbook of
  eight sheets and saves it. The script is embedded statement by statement: the
  workbook under construction is passed from one statement to the next, every call
  that can raise returns \<open>error + state\<close> (\<open>Inl\<close> the exception), and a Python variable
  that holds a worksheet is the position of that worksheet in the workbook, so that an
  update through the variable is seen by the workbook that is saved at the end.

  Python strings are written as \<open>string\<close>. All text of the script is ASCII except the em
  dash (U+2014) in the prompt texts, which is written as its three UTF-8 bytes.
\<close>

subsection \<open>Exceptions and sequencing\<close>

datatype error = ValueError | IllegalCharacterError | AttributeError | OSError string

text \<open>Statements one after the other; the first exception ends the run.\<close>

fun seq :: "('s \<Rightarrow> error + 's) list \<Rightarrow> 's \<Rightarrow> error + 's" where
  "seq [] s = Inr s"
| "seq (f # fs) s = (case f s of Inl e \<Rightarrow> Inl e | Inr s' \<Rightarrow> seq fs s')"

text \<open>\<^verbatim>\<open>for x in xs: body\<close>\<close>

definition for_each :: "'a list \<Rightarrow> ('a \<Rightarrow> 's \<Rightarrow> error + 's) \<Rightarrow> 's \<Rightarrow> error + 's" where
  "for_each xs body = seq (map body xs)"

text \<open>\<^verbatim>\<open>range(a, b)\<close> and \<^verbatim>\<open>enumerate(xs, start)\<close>\<close>

definition py_range :: "int \<Rightarrow> int \<Rightarrow> int list" where
  "py_range a b = [a..b - 1]"

definition py_enumerate :: "'a list \<Rightarrow> int \<Rightarrow> (int \<times> 'a) list" where
  "py_enumerate xs start = zip [start..start + int (length xs) - 1] xs"

text \<open>\<^verbatim>\<open>needle in haystack\<close> on strings\<close>

definition contains :: "string \<Rightarrow> string \<Rightarrow> bool" where
  "contains haystack needle = sublist needle haystack"

subsection \<open>The openpyxl objects the script uses\<close>

text \<open>
  openpyxl is a library outside the repository. What follows models the part of it the
  script calls, after the library's behaviour (release 3.1): the style objects, the cell
  with its value binding, the worksheet with its cell dictionary, and the workbook.
  A style attribute of a cell is \<open>None\<close> until something is assigned to it (the cell
  then shows the workbook's default style).
\<close>

record font =
  font_name :: string
  font_size :: nat
  font_bold :: bool
  font_color :: "string option"

record pattern_fill =
  start_color :: string
  end_color :: string
  fill_type :: string

record alignment =
  horizontal :: "string option"
  vertical :: "string option"
  wrap_text :: "bool option"

record side =
  side_style :: string
  side_color :: string

record border =
  border_left :: side
  border_right :: side
  border_top :: side
  border_bottom :: side

datatype pyval = PyNone | PyStr string | PyInt int | PyBool bool

text \<open>The cell's \<^verbatim>\<open>data_type\<close>: \<^verbatim>\<open>'n'\<close>, \<^verbatim>\<open>'s'\<close>, \<^verbatim>\<open>'f'\<close>, \<^verbatim>\<open>'e'\<close>, \<^verbatim>\<open>'b'\<close>.\<close>

datatype data_type = TypeNumeric | TypeString | TypeFormula | TypeError | TypeBool

record cell =
  cell_value :: pyval
  cell_data_type :: data_type
  cell_font :: "font option"
  cell_fill :: "pattern_fill option"
  cell_alignment :: "alignment option"
  cell_border :: "border option"

definition empty_cell :: cell where
  "empty_cell = \<lparr>cell_value = PyNone, cell_data_type = TypeNumeric, cell_font = None,
     cell_fill = None, cell_alignment = None, cell_border = None\<rparr>"

text \<open>
  \<^verbatim>\<open>ILLEGAL_CHARACTERS_RE = [\000-\010]|[\013-\014]|[\016-\037]\<close>: the control characters
  other than tab, line feed and carriage return.
\<close>

definition illegal_character :: "char \<Rightarrow> bool" where
  "illegal_character c =
     (let n = (of_char c :: nat) in n \<le> 8 \<or> n = 11 \<or> n = 12 \<or> (14 \<le> n \<and> n \<le> 31))"

text \<open>
  The first \<open>n\<close> characters of a string. A byte \<open>10xxxxxx\<close> continues the character
  before it, so it is kept with that character and not counted.
\<close>

definition continuation_byte :: "char \<Rightarrow> bool" where
  "continuation_byte c = (128 \<le> (of_char c :: nat) \<and> (of_char c :: nat) < 192)"

fun take_chars :: "nat \<Rightarrow> string \<Rightarrow> string" where
  "take_chars n [] = []"
| "take_chars n (c # cs) =
     (if continuation_byte c then c # take_chars n cs
      else if n = 0 then [] else c # take_chars (n - 1) cs)"

text \<open>
  \<^verbatim>\<open>Cell.check_string\<close>: a string is cut to 32767 characters and refused when it holds
  an illegal character.
\<close>

definition check_string :: "string \<Rightarrow> error + string" where
  "check_string v =
     (let v' = take_chars 32767 v
      in if list_ex illegal_character v' then Inl IllegalCharacterError else Inr v')"

definition ERROR_CODES :: "string list" where
  "ERROR_CODES = [''#NULL!'', ''#DIV/0!'', ''#VALUE!'', ''#REF!'', ''#NAME?'', ''#NUM!'', ''#N/A'']"

text \<open>
  \<^verbatim>\<open>Cell(ws, row, column, value)\<close> with \<^verbatim>\<open>Cell._bind_value\<close>: the value is stored as it
  is given and the data type is inferred from its Python type; a string longer than one
  character that starts with \<^verbatim>\<open>=\<close> is a formula, a string among the error codes is an
  error value. Nothing turns a string into a number or a boolean.
\<close>

definition new_cell :: "pyval \<Rightarrow> error + cell" where
  "new_cell v =
     (case v of
        PyNone \<Rightarrow> Inr empty_cell
      | PyInt n \<Rightarrow> Inr (empty_cell\<lparr>cell_value := PyInt n, cell_data_type := TypeNumeric\<rparr>)
      | PyBool b \<Rightarrow> Inr (empty_cell\<lparr>cell_value := PyBool b, cell_data_type := TypeBool\<rparr>)
      | PyStr s \<Rightarrow>
          (case check_string s of
             Inl e \<Rightarrow> Inl e
           | Inr s' \<Rightarrow>
               Inr (empty_cell\<lparr>cell_value := PyStr s',
                 cell_data_type :=
                   (if length s' > 1 \<and> hd s' = CHR ''='' then TypeFormula
                    else if s' \<in> set ERROR_CODES then TypeError
                    else TypeString)\<rparr>)))"

text \<open>
  The worksheet: \<^verbatim>\<open>_cells\<close> is a dictionary from (row, column) to the cell, kept as an
  association list in insertion order; \<^verbatim>\<open>column_dimensions\<close> maps a column letter to
  the width assigned to it.
\<close>

record worksheet =
  title :: string
  cells :: "((int \<times> int) \<times> cell) list"
  current_row :: int
  freeze_panes :: "string option"
  auto_filter_ref :: "string option"
  column_dimensions :: "(string \<times> nat) list"

definition new_worksheet :: "string \<Rightarrow> worksheet" where
  "new_worksheet t = \<lparr>title = t, cells = [], current_row = 0, freeze_panes = None,
     auto_filter_ref = None, column_dimensions = []\<rparr>"

text \<open>
  \<^verbatim>\<open>ws.cell(row=r, column=c)\<close>: the cell at that place, created empty when it is not
  there yet (\<^verbatim>\<open>_get_cell\<close>, \<^verbatim>\<open>_add_cell\<close>). The Python call returns the cell object;
  here the object is the entry at \<open>(r, c)\<close> and \<open>assign\<close> below writes its attributes.
\<close>

definition ws_cell :: "int \<Rightarrow> int \<Rightarrow> worksheet \<Rightarrow> error + worksheet" where
  "ws_cell row column ws =
     (if row < 1 \<or> column < 1 \<or> \<not> row < 1048577 then Inl ValueError
      else if map_of (cells ws) (row, column) = None
        then Inr (ws\<lparr>cells := AList.update (row, column) empty_cell (cells ws),
                      current_row := max row (current_row ws)\<rparr>)
        else Inr ws)"

text \<open>\<^verbatim>\<open>cell.attr = v\<close> on the cell object at \<open>(r, c)\<close>\<close>

definition assign :: "int \<times> int \<Rightarrow> (cell \<Rightarrow> cell) \<Rightarrow> worksheet \<Rightarrow> error + worksheet" where
  "assign rc f ws = Inr (ws\<lparr>cells := AList.map_entry rc f (cells ws)\<rparr>)"

text \<open>
  \<^verbatim>\<open>ws.append(iterable)\<close>: the values go to the row after the current one, columns
  1, 2, ... in order, each in a fresh cell.
\<close>

definition append :: "pyval list \<Rightarrow> worksheet \<Rightarrow> error + worksheet" where
  "append iterable ws =
     (let row_idx = current_row ws + 1
      in case for_each (py_enumerate iterable 1)
                (\<lambda>(col_idx, content) w.
                   case new_cell content of
                     Inl e \<Rightarrow> Inl e
                   | Inr c \<Rightarrow> Inr (w\<lparr>cells := AList.update (row_idx, col_idx) c (cells w)\<rparr>)) ws of
           Inl e \<Rightarrow> Inl e
         | Inr ws' \<Rightarrow> Inr (ws'\<lparr>current_row := row_idx\<rparr>))"

text \<open>\<^verbatim>\<open>ws.max_row\<close>: the largest row that holds a cell, 1 for an empty sheet.\<close>

definition max_row :: "worksheet \<Rightarrow> int" where
  "max_row ws = fold max (map (fst \<circ> fst) (cells ws)) 1"

text \<open>\<^verbatim>\<open>ws.freeze_panes = ref\<close>: \<^verbatim>\<open>"A1"\<close> means no frozen pane.\<close>

definition set_freeze_panes :: "string \<Rightarrow> worksheet \<Rightarrow> error + worksheet" where
  "set_freeze_panes topLeftCell ws =
     Inr (ws\<lparr>freeze_panes := (if topLeftCell = ''A1'' \<or> topLeftCell = [] then None
                                else Some topLeftCell)\<rparr>)"

text \<open>\<^verbatim>\<open>ws.auto_filter.ref = ref\<close>\<close>

definition set_auto_filter_ref :: "string \<Rightarrow> worksheet \<Rightarrow> error + worksheet" where
  "set_auto_filter_ref ref ws = Inr (ws\<lparr>auto_filter_ref := Some ref\<rparr>)"

text \<open>\<^verbatim>\<open>ws.column_dimensions[letter].width = w\<close>: the entry is created on first use.\<close>

definition set_column_width :: "string \<Rightarrow> nat \<Rightarrow> worksheet \<Rightarrow> error + worksheet" where
  "set_column_width letter w ws =
     Inr (ws\<lparr>column_dimensions := AList.update letter w (column_dimensions ws)\<rparr>)"

text \<open>
  \<^verbatim>\<open>get_column_letter(col_idx)\<close>: 1 is A, 26 is Z, 27 is AA, up to 18278 (ZZZ). The
  library's loop takes the remainder by 26, borrows on an exact division, and collects
  the letters last digit first.
\<close>

definition uppercase :: string where
  "uppercase = ''ABCDEFGHIJKLMNOPQRSTUVWXYZ''"

function column_letters :: "int \<Rightarrow> string" where
  "column_letters col_idx =
     (if col_idx > 0
      then (let q = col_idx div 26; remainder = col_idx mod 26
            in if remainder = 0 then column_letters (q - 1) @ [uppercase ! 25]
               else column_letters q @ [uppercase ! nat (remainder - 1)])
      else [])"
  by pat_completeness auto
termination
  by (relation "measure nat") auto

declare column_letters.simps [simp del]

definition get_column_letter :: "int \<Rightarrow> error + string" where
  "get_column_letter col_idx =
     (if \<not> (1 \<le> col_idx \<and> col_idx \<le> 18278) then Inl ValueError
      else Inr (column_letters col_idx))"

text \<open>
  The workbook owns its worksheets in order. A Python variable bound to a worksheet is
  a reference to the object in that list; the reference is the position. Beside the
  sheets the workbook carries its document properties, among them the time at which it
  was created, which the library reads from the clock.
\<close>

record document_properties =
  creator :: string
  created :: nat

record workbook =
  sheets :: "worksheet list"
  active_sheet_index :: nat
  properties :: document_properties

type_synonym sheet_ref = nat

definition sheetnames :: "workbook \<Rightarrow> string list" where
  "sheetnames wb = map title (sheets wb)"

text \<open>
  \<^verbatim>\<open>openpyxl.Workbook()\<close>: a workbook with one sheet, titled \<^verbatim>\<open>Sheet\<close>, active, and
  with the properties of a new document: the creator is the library and the creation
  time is the time \<open>now\<close> of the call.
\<close>

definition Workbook :: "nat \<Rightarrow> workbook" where
  "Workbook now =
     \<lparr>sheets = [new_worksheet ''Sheet''], active_sheet_index = 0,
      properties = \<lparr>creator = ''openpyxl'', created = now\<rparr>\<rparr>"

text \<open>\<^verbatim>\<open>wb.active\<close>: the active sheet, \<^verbatim>\<open>None\<close> when there is none.\<close>

definition active :: "workbook \<Rightarrow> sheet_ref option" where
  "active wb =
     (if active_sheet_index wb < length (sheets wb) then Some (active_sheet_index wb) else None)"

text \<open>A method call or attribute assignment on the worksheet a variable refers to.\<close>

definition on_sheet :: "sheet_ref \<Rightarrow> (worksheet \<Rightarrow> error + worksheet) \<Rightarrow> workbook \<Rightarrow> error + workbook" where
  "on_sheet ws f wb =
     (if \<not> ws < length (sheets wb) then Inl AttributeError
      else case f (sheets wb ! ws) of
             Inl e \<Rightarrow> Inl e
           | Inr ws' \<Rightarrow> Inr (wb\<lparr>sheets := (sheets wb)[ws := ws']\<rparr>))"

text \<open>
  Sheet titles. \<^verbatim>\<open>INVALID_TITLE_REGEX\<close> refuses the characters \<^verbatim>\<open>\ * ? : / [ ]\<close>.
  \<^verbatim>\<open>avoid_duplicate_name\<close>: when the title is already taken (compared without case),
  the library scans the comma-joined sheet names for the title followed by digits and
  appends the highest number found plus one. Case folding and digits are ASCII here.
\<close>

definition INVALID_TITLE_CHARS :: string where
  "INVALID_TITLE_CHARS = CHR 0x5C # ''*?:/[]''"

definition lowercase :: string where
  "lowercase = ''abcdefghijklmnopqrstuvwxyz''"

definition lower_char :: "char \<Rightarrow> char" where
  "lower_char c = (case map_of (zip uppercase lowercase) c of Some l \<Rightarrow> l | None \<Rightarrow> c)"

definition lower :: "string \<Rightarrow> string" where
  "lower s = map lower_char s"

definition digit_chars :: string where
  "digit_chars = ''0123456789''"

definition is_digit :: "char \<Rightarrow> bool" where
  "is_digit c = (c \<in> set digit_chars)"

definition int_of_digits :: "string \<Rightarrow> nat" where
  "int_of_digits ds = fold (\<lambda>c n. 10 * n + length (takeWhile (\<lambda>d. d \<noteq> c) digit_chars)) ds 0"

function str_of_nat :: "nat \<Rightarrow> string" where
  "str_of_nat n =
     (if n < 10 then [digit_chars ! n] else str_of_nat (n div 10) @ [digit_chars ! (n mod 10)])"
  by pat_completeness auto
termination
  by (relation "measure id") auto

declare str_of_nat.simps [simp del]

fun join :: "string \<Rightarrow> string list \<Rightarrow> string" where
  "join sep [] = []"
| "join sep [x] = x"
| "join sep (x # y # ys) = x @ sep @ join sep (y # ys)"

fun match_ci :: "string \<Rightarrow> string \<Rightarrow> string option" where
  "match_ci [] s = Some s"
| "match_ci (v # vs) [] = None"
| "match_ci (v # vs) (c # cs) = (if lower_char v = lower_char c then match_ci vs cs else None)"

text \<open>
  The numbers that follow an occurrence of the title in the joined names, left to right
  without overlap; \<open>skip\<close> counts the characters of a match still to be passed over.
\<close>

fun title_counts :: "nat \<Rightarrow> string \<Rightarrow> string \<Rightarrow> nat list" where
  "title_counts skip v [] = []"
| "title_counts (Suc k) v (c # cs) = title_counts k v cs"
| "title_counts 0 v (c # cs) =
     (case match_ci v (c # cs) of
        None \<Rightarrow> title_counts 0 v cs
      | Some rest \<Rightarrow>
          (let ds = takeWhile is_digit rest;
               comma = (case drop (length ds) rest of
                          [] \<Rightarrow> 0
                        | d # _ \<Rightarrow> if d = CHR '','' then 1 else (0::nat))
           in (if ds = [] then [] else [int_of_digits ds]) @
              title_counts (length v + length ds + comma - 1) v cs))"

definition avoid_duplicate_name :: "string list \<Rightarrow> string \<Rightarrow> string" where
  "avoid_duplicate_name names v =
     (if list_ex (\<lambda>n. lower n = lower v) names
      then v @ str_of_nat (fold max (title_counts 0 v (join '','' names)) 0 + 1)
      else v)"

definition check_title :: "string \<Rightarrow> error option" where
  "check_title v =
     (if v = [] then Some ValueError
      else if list_ex (\<lambda>c. c \<in> set INVALID_TITLE_CHARS) v then Some ValueError
      else None)"

text \<open>\<^verbatim>\<open>ws.title = value\<close>\<close>

definition set_title :: "sheet_ref \<Rightarrow> string \<Rightarrow> workbook \<Rightarrow> error + workbook" where
  "set_title ws v wb =
     (if \<not> ws < length (sheets wb) then Inl AttributeError
      else case check_title v of
             Some e \<Rightarrow> Inl e
           | None \<Rightarrow>
               (let v' = (if title (sheets wb ! ws) \<noteq> v
                          then avoid_duplicate_name (sheetnames wb) v else v)
                in Inr (wb\<lparr>sheets := (sheets wb)[ws := (sheets wb ! ws)\<lparr>title := v'\<rparr>]\<rparr>)))"

text \<open>
  \<^verbatim>\<open>wb.create_sheet(title)\<close>: a new empty worksheet with that title (made unique),
  added after the existing ones; the call returns the new worksheet.
\<close>

definition create_sheet :: "string \<Rightarrow> workbook \<Rightarrow> error + workbook \<times> sheet_ref" where
  "create_sheet t wb =
     (let v = (if t = [] then ''Sheet'' else t)
      in case check_title v of
           Some e \<Rightarrow> Inl e
         | None \<Rightarrow>
             Inr (wb\<lparr>sheets := sheets wb @ [new_worksheet (avoid_duplicate_name (sheetnames wb) v)]\<rparr>,
                  length (sheets wb)))"

text \<open>
  \<^verbatim>\<open>for row in ws.iter_rows(min_row=a, min_col=b, max_col=c): for cell in row: body\<close>.
  The rows run to the sheet's \<^verbatim>\<open>max_row\<close> at the time of the call, and a cell that
  does not exist yet is created.
\<close>

definition for_iter_rows ::
  "int \<Rightarrow> int \<Rightarrow> int \<Rightarrow> (int \<times> int \<Rightarrow> worksheet \<Rightarrow> error + worksheet) \<Rightarrow> worksheet \<Rightarrow> error + worksheet" where
  "for_iter_rows min_row min_col max_col body ws =
     for_each (py_range min_row (max_row ws + 1))
       (\<lambda>row. for_each (py_range min_col (max_col + 1))
          (\<lambda>col. seq [ws_cell row col, body (row, col)])) ws"

subsection \<open>The script: styles\<close>

definition header_font :: font where
  "header_font = \<lparr>font_name = ''Arial'', font_size = 11, font_bold = True,
     font_color = Some ''FFFFFF''\<rparr>"

definition header_fill :: pattern_fill where
  "header_fill = \<lparr>start_color = ''4285F4'', end_color = ''4285F4'', fill_type = ''solid''\<rparr>"

definition header_align :: alignment where
  "header_align = \<lparr>horizontal = Some ''center'', vertical = Some ''center'',
     wrap_text = Some True\<rparr>"

definition body_font :: font where
  "body_font = \<lparr>font_name = ''Arial'', font_size = 10, font_bold = False, font_color = None\<rparr>"

definition body_align :: alignment where
  "body_align = \<lparr>horizontal = None, vertical = Some ''top'', wrap_text = Some True\<rparr>"

definition thin_border :: border where
  "thin_border =
     \<lparr>border_left = \<lparr>side_style = ''thin'', side_color = ''CCCCCC''\<rparr>,
      border_right = \<lparr>side_style = ''thin'', side_color = ''CCCCCC''\<rparr>,
      border_top = \<lparr>side_style = ''thin'', side_color = ''CCCCCC''\<rparr>,
      border_bottom = \<lparr>side_style = ''thin'', side_color = ''CCCCCC''\<rparr>\<rparr>"

text \<open>
  \<^verbatim>\<open>def style_header(ws, num_cols)\<close>: the loop over \<^verbatim>\<open>range(1, num_cols + 1)\<close> styles
  the cells of row 1, then the pane is frozen at A2 and the filter is set on
  \<^verbatim>\<open>A1:<letter of num_cols>1\<close>. The worksheet is the last argument here.
\<close>

definition style_header :: "int \<Rightarrow> worksheet \<Rightarrow> error + worksheet" where
  "style_header num_cols =
     seq [for_each (py_range 1 (num_cols + 1))
            (\<lambda>col. seq [ws_cell 1 col,
                         assign (1, col) (\<lambda>c. c\<lparr>cell_font := Some header_font\<rparr>),
                         assign (1, col) (\<lambda>c. c\<lparr>cell_fill := Some header_fill\<rparr>),
                         assign (1, col) (\<lambda>c. c\<lparr>cell_alignment := Some header_align\<rparr>),
                         assign (1, col) (\<lambda>c. c\<lparr>cell_border := Some thin_border\<rparr>)]),
          set_freeze_panes ''A2'',
          (\<lambda>ws. case get_column_letter num_cols of
                   Inl e \<Rightarrow> Inl e
                 | Inr letter \<Rightarrow> set_auto_filter_ref (''A1:'' @ letter @ ''1'') ws)]"

text \<open>
  \<^verbatim>\<open>for i, w in enumerate(widths, 1): ws.column_dimensions[get_column_letter(i)].width = w\<close>,
  the loop that six of the tabs repeat.
\<close>

definition set_widths :: "nat list \<Rightarrow> worksheet \<Rightarrow> error + worksheet" where
  "set_widths widths =
     for_each (py_enumerate widths 1)
       (\<lambda>(i, w) ws. case get_column_letter i of
                       Inl e \<Rightarrow> Inl e
                     | Inr letter \<Rightarrow> set_column_width letter w ws)"

subsection \<open>The script: tab 1, Settings\<close>

definition settings_defaults :: "string list list" where
  "settings_defaults =
     [[''mode'', ''group''],
      [''distribute_email'', ''true''],
      [''distribute_canvas'', ''false''],
      [''grade_scale'', ''0-100''],
      [''teacher_email'', ''''],
      [''teacher_name'', ''''],
      [''email_subject_template'', ''Harkness Discussion Report - {date}''],
      [''gemini_model'', ''gemini-2.0-flash''],
      [''elevenlabs_model'', ''scribe_v2''],
      [''canvas_course_id'', ''''],
      [''canvas_base_url'', ''''],
      [''canvas_item_type'', ''assignment'']]"

text \<open>
  \<^verbatim>\<open>ws_settings = wb.active\<close>; a method call on \<^verbatim>\<open>None\<close> would raise
  \<^verbatim>\<open>AttributeError\<close>. The lists of the script hold Python strings, \<open>PyStr\<close> when
  they are handed to the library.
\<close>

definition tab_settings :: "workbook \<Rightarrow> error + workbook" where
  "tab_settings wb =
     (case active wb of
        None \<Rightarrow> Inl AttributeError
      | Some ws_settings \<Rightarrow>
          seq [set_title ws_settings ''Settings'',
               on_sheet ws_settings (append [PyStr ''setting_key'', PyStr ''setting_value'']),
               on_sheet ws_settings (style_header 2),
               for_each settings_defaults (\<lambda>row. on_sheet ws_settings (append (map PyStr row))),
               on_sheet ws_settings (set_column_width ''A'' 30),
               on_sheet ws_settings (set_column_width ''B'' 50)] wb)"

subsection \<open>The script: tabs 2 to 6, header-only sheets\<close>

definition disc_headers :: "string list" where
  "disc_headers =
     [''status'', ''next_step'', ''date'', ''section'', ''course'',
      ''grade'', ''approved'', ''group_feedback'',
      ''canvas_assignment_id'', ''canvas_item_type'',
      ''discussion_id'', ''audio_file_id'', ''error_message'',
      ''created_at'', ''updated_at'']"

definition disc_widths :: "nat list" where
  "disc_widths = [12, 30, 12, 12, 14, 8, 10, 40, 18, 14, 18, 18, 30, 18, 18]"

definition tab_discussions :: "workbook \<Rightarrow> error + workbook" where
  "tab_discussions wb =
     (case create_sheet ''Discussions'' wb of
        Inl e \<Rightarrow> Inl e
      | Inr (wb', ws_disc) \<Rightarrow>
          seq [on_sheet ws_disc (append (map PyStr disc_headers)),
               on_sheet ws_disc (style_header (int (length disc_headers))),
               on_sheet ws_disc (set_widths disc_widths)] wb')"

definition stu_headers :: "string list" where
  "stu_headers = [''name'', ''email'', ''section'', ''course'', ''canvas_user_id'', ''student_id'']"

definition stu_widths :: "nat list" where
  "stu_widths = [22, 28, 14, 14, 14, 18]"

definition tab_students :: "workbook \<Rightarrow> error + workbook" where
  "tab_students wb =
     (case create_sheet ''Students'' wb of
        Inl e \<Rightarrow> Inl e
      | Inr (wb', ws_stu) \<Rightarrow>
          seq [on_sheet ws_stu (append (map PyStr stu_headers)),
               on_sheet ws_stu (style_header (int (length stu_headers))),
               on_sheet ws_stu (set_widths stu_widths)] wb')"

definition trans_headers :: "string list" where
  "trans_headers =
     [''discussion_id'', ''raw_transcript'', ''speaker_map'', ''named_transcript'',
      ''created_at'', ''updated_at'']"

definition trans_widths :: "nat list" where
  "trans_widths = [18, 60, 30, 60, 18, 18]"

definition tab_transcripts :: "workbook \<Rightarrow> error + workbook" where
  "tab_transcripts wb =
     (case create_sheet ''Transcripts'' wb of
        Inl e \<Rightarrow> Inl e
      | Inr (wb', ws_trans) \<Rightarrow>
          seq [on_sheet ws_trans (append (map PyStr trans_headers)),
               on_sheet ws_trans (style_header (int (length trans_headers))),
               on_sheet ws_trans (set_widths trans_widths)] wb')"

definition sm_headers :: "string list" where
  "sm_headers =
     [''discussion_id'', ''speaker_label'', ''suggested_name'', ''student_name'', ''confirmed'']"

definition sm_widths :: "nat list" where
  "sm_widths = [18, 14, 20, 20, 10]"

definition tab_speakermap :: "workbook \<Rightarrow> error + workbook" where
  "tab_speakermap wb =
     (case create_sheet ''SpeakerMap'' wb of
        Inl e \<Rightarrow> Inl e
      | Inr (wb', ws_sm) \<Rightarrow>
          seq [on_sheet ws_sm (append (map PyStr sm_headers)),
               on_sheet ws_sm (style_header (int (length sm_headers))),
               on_sheet ws_sm (set_widths sm_widths)] wb')"

definition rep_headers :: "string list" where
  "rep_headers =
     [''student_name'', ''grade'', ''approved'', ''sent'', ''feedback'',
      ''discussion_id'', ''transcript_contributions'', ''participation_summary'',
      ''student_id'', ''report_id'', ''created_at'', ''updated_at'']"

definition rep_widths :: "nat list" where
  "rep_widths = [20, 8, 10, 8, 40, 18, 40, 30, 18, 18, 18, 18]"

definition tab_studentreports :: "workbook \<Rightarrow> error + workbook" where
  "tab_studentreports wb =
     (case create_sheet ''StudentReports'' wb of
        Inl e \<Rightarrow> Inl e
      | Inr (wb', ws_rep) \<Rightarrow>
          seq [on_sheet ws_rep (append (map PyStr rep_headers)),
               on_sheet ws_rep (style_header (int (length rep_headers))),
               on_sheet ws_rep (set_widths rep_widths)] wb')"

subsection \<open>The script: tab 7, Prompts\<close>

text \<open>
  The three prompt texts are the triple-quoted literals of the list \<^verbatim>\<open>prompts\<close>; each
  is given as its lines, joined by line feeds, with no line feed after the last.
\<close>

definition em_dash :: string where
  "em_dash = [CHR 0xE2, CHR 0x80, CHR 0x94]"

definition speaker_identification_text :: string where
  \<open>speaker_identification_text =
     join [CHR 10]
      [''You are analyzing the beginning of a classroom Harkness discussion recording.'',
       '''',
       ''Students typically introduce themselves at the start. Listen for patterns like:'',
       ''- "Hi, I\'m [name]"'',
       ''- "My name is [name]"'',
       ''- "This is [name]"'',
       ''- "[Name] here"'',
       ''- Other natural introductions'',
       '''',
       ''Analyze this transcript excerpt and identify which speaker label corresponds to which student name.'',
       '''',
       ''IMPORTANT RULES:'',
       ''1. Only include speakers you can confidently identify from explicit introductions'',
       ''2. If a speaker cannot be identified, map them to "?" instead'',
       ''3. Be case-sensitive with names as they appear'',
       ''4. The teacher may also speak '' @ em_dash @ '' if identified, include them as "Teacher"'',
       '''',
       ''Return ONLY a valid JSON object mapping speaker labels to names.'',
       ''Example format: {"Speaker 0": "Maria", "Speaker 1": "James", "Speaker 2": "Teacher", "Speaker 3": "?"}'',
       '''',
       ''Transcript excerpt:'',
       ''{transcript}'',
       '''',
       ''JSON mapping:'']\<close>

definition group_feedback_text :: string where
  \<open>group_feedback_text =
     join [CHR 10]
      [''You are a high school teacher analyzing a Harkness discussion. You will produce exactly two paragraphs.'',
       '''',
       ''**PARAGRAPH 1 '' @ em_dash @ '' Discussion Summary** (Neutral Voice)'',
       ''Write in a neutral, objective, third-person voice. Provide a detailed summary of the discussion\'s main topics and flow. Identify 2-3 "defining moments" '' @ em_dash @ '' key turning points, breakthrough ideas, or significant challenges that shaped the conversation.'',
       '''',
       ''**PARAGRAPH 2 '' @ em_dash @ '' Evaluative Comment** (Teacher Voice)'',
       ''Write in the teacher\'s voice, directed at the class ("you" plural, "I" for the teacher). The tone must be direct, informal, supportive, and clear. Follow this mandatory "Critique Sandwich" structure:'',
       '''',
       ''1. **The Grade**: State the grade clearly and colloquially in the first sentence. (e.g., "This was a strong discussion, earning a solid 8.5 out of 10.", "This was a decent but not great start... 7/10.")'',
       ''2. **The Good**: Highlight 2-3 specific positive achievements. Credit specific students by name, linking them to their idea or contribution.'',
       ''3. **The Gap**: Identify the primary weakness or area for growth.'',
       ''4. **The Next Step**: Conclude with a single, clear, actionable goal for the next discussion.'',
       '''',
       ''**Tone alignment with grade:**'',
       ''- High grade (9-10): Frame positives as "excellent" or "deep"; the gap is a "final step" to the next level.'',
       ''- Medium grade (7-8.5): Balanced ("solid," "decent start") with a more significant gap to work on.'',
       ''- Lower grade (below 7): Honest but encouraging; clear gap with concrete next steps.'',
       '''',
       ''**Important:**'',
       ''- If the teacher gave oral feedback during the discussion (often near the end '' @ em_dash @ '' look for phrases like "my evaluation," "my feedback," or the teacher summarizing), align your evaluation with their points.'',
       ''- Credit specific students by name for notable contributions.'',
       ''- If the teacher intervened to guide the discussion, acknowledge this (e.g., "I had to provide the key synthesizing question").'',
       '''',
       ''Grade: {grade}'',
       '''',
       ''Transcript:'',
       ''{transcript}'',
       '''',
       ''Write the two paragraphs now (summary paragraph first, then evaluative comment):'']\<close>

definition individual_feedback_text :: string where
  \<open>individual_feedback_text =
     join [CHR 10]
      [''You are a high school teacher providing personalized feedback to {student_name} about their Harkness discussion participation. You will produce exactly two paragraphs.'',
       '''',
       ''**PARAGRAPH 1 '' @ em_dash @ '' Contribution Summary** (Neutral Voice)'',
       ''Write in a neutral, objective voice. Summarize what {student_name} contributed to the discussion '' @ em_dash @ '' their main points, arguments, and how they engaged with other students\' ideas. Note specific moments where they advanced or redirected the conversation.'',
       '''',
       ''**PARAGRAPH 2 '' @ em_dash @ '' Evaluative Comment** (Teacher Voice)'',
       ''Write in the teacher\'s voice, directed at the student ("you"). The tone must be direct, informal, supportive, and clear. Follow this "Critique Sandwich" structure:'',
       '''',
       ''1. **The Grade**: State the grade clearly in the first sentence.'',
       ''2. **The Good**: Highlight 2-3 specific strengths from their participation, referencing actual points they made.'',
       ''3. **The Gap**: Identify their primary area for growth as a discussion participant.'',
       ''4. **The Next Step**: Conclude with a single, actionable goal for their next discussion.'',
       '''',
       ''**Tone alignment with grade:**'',
       ''- High grade (9-10): "Excellent" contributions; the gap is a stretch goal.'',
       ''- Medium grade (7-8.5): "Solid" participation with clear room to grow.'',
       ''- Lower grade (below 7): Encouraging but honest about what\'s missing.'',
       '''',
       ''**Important:**'',
       ''- If the teacher gave oral feedback during the discussion (often near the end '' @ em_dash @ '' look for phrases like "my evaluation," "my feedback," or the teacher summarizing), align your evaluation with their points.'',
       '''',
       ''Grade: {grade}'',
       '''',
       ''{student_name}\'s contributions:'',
       ''{contributions}'',
       '''',
       ''Full discussion transcript (for context):'',
       ''{transcript}'',
       '''',
       ''Write the two paragraphs now (contribution summary first, then evaluative comment for {student_name}):'']\<close>

definition prompts :: "string list list" where
  "prompts =
     [[''SPEAKER_IDENTIFICATION'', speaker_identification_text],
      [''GROUP_FEEDBACK'', group_feedback_text],
      [''INDIVIDUAL_FEEDBACK'', individual_feedback_text]]"

definition tab_prompts :: "workbook \<Rightarrow> error + workbook" where
  "tab_prompts wb =
     (case create_sheet ''Prompts'' wb of
        Inl e \<Rightarrow> Inl e
      | Inr (wb', ws_prompts) \<Rightarrow>
          seq [on_sheet ws_prompts (append [PyStr ''prompt_name'', PyStr ''prompt_text'']),
               on_sheet ws_prompts (style_header 2),
               for_each prompts (\<lambda>row. on_sheet ws_prompts (append (map PyStr row))),
               on_sheet ws_prompts (set_column_width ''A'' 28),
               on_sheet ws_prompts (set_column_width ''B'' 100),
               on_sheet ws_prompts
                 (for_iter_rows 2 2 2
                    (\<lambda>rc. assign rc
                       (\<lambda>c. c\<lparr>cell_alignment :=
                               Some \<lparr>horizontal = None, vertical = Some ''top'',
                                     wrap_text = Some True\<rparr>\<rparr>)))] wb')"

subsection \<open>The script: tab 8, Courses\<close>

definition courses_headers :: "string list" where
  "courses_headers = [''course_name'', ''canvas_course_id'', ''canvas_base_url'', ''canvas_item_type'']"

definition courses_widths :: "nat list" where
  "courses_widths = [24, 18, 36, 14]"

definition tab_courses :: "workbook \<Rightarrow> error + workbook" where
  "tab_courses wb =
     (case create_sheet ''Courses'' wb of
        Inl e \<Rightarrow> Inl e
      | Inr (wb', ws_courses) \<Rightarrow>
          seq [on_sheet ws_courses (append (map PyStr courses_headers)),
               on_sheet ws_courses (style_header (int (length courses_headers))),
               on_sheet ws_courses (set_widths courses_widths)] wb')"

subsection \<open>The script: the whole run\<close>

text \<open>
  What a run can see of the outside: the command line, the environment variables, the
  clock, the file system and standard output. Of the file system only the outcome of
  writing a file matters: \<open>None\<close> when the file is written, the message of the I/O
  error otherwise. Writing a line to standard output either succeeds, or raises the I/O
  error in \<^verbatim>\<open>print\<close> (an unbuffered stream), or fails when the interpreter flushes the
  buffered line at exit.
\<close>

datatype print_outcome = Printed | PrintRaised string | FlushFailed

record environment =
  argv :: "string list"
  environ :: "(string \<times> string) list"
  clock :: nat
  write_file :: "string \<Rightarrow> string option"
  write_stdout :: "string \<Rightarrow> print_outcome"

text \<open>
  Everything before \<^verbatim>\<open>wb.save\<close>: the workbook as it is handed to \<^verbatim>\<open>save\<close>. The
  script reads neither the command line nor the environment variables; the clock is
  read once, by \<^verbatim>\<open>openpyxl.Workbook()\<close> on line 12.
\<close>

definition build :: "environment \<Rightarrow> error + workbook" where
  "build env =
     seq [tab_settings, tab_discussions, tab_students, tab_transcripts, tab_speakermap,
          tab_studentreports, tab_prompts, tab_courses] (Workbook (clock env))"

text \<open>
  The end of a run: the exit status, what was printed, the exception that ended the run
  if one did, and the file that was written.
\<close>

record outcome =
  exit_status :: nat
  stdout :: "string list"
  uncaught :: "error option"
  written :: "(string \<times> workbook) option"

definition output_path :: string where
  "output_path = ''Harkness_Helper_Template.xlsx''"

text \<open>\<^verbatim>\<open>wb.save(path)\<close>\<close>

definition save :: "environment \<Rightarrow> string \<Rightarrow> workbook \<Rightarrow> error + workbook" where
  "save env path wb =
     (case write_file env path of Some msg \<Rightarrow> Inl (OSError msg) | None \<Rightarrow> Inr wb)"

text \<open>
  The script has no handler: an exception nobody catches ends the Python process with
  status 1. The last statement, \<^verbatim>\<open>print(f"Template saved to: {output_path}")\<close>, runs
  after the file is written. When the line cannot be written, \<^verbatim>\<open>print\<close> raises the
  I/O error (status 1), or, on a buffered stream, the statement returns and the flush at
  exit fails, which ends the process with status 120 and no exception of the script.
\<close>

definition main :: "environment \<Rightarrow> outcome" where
  "main env =
     (case build env of
        Inl e \<Rightarrow> \<lparr>exit_status = 1, stdout = [], uncaught = Some e, written = None\<rparr>
      | Inr wb \<Rightarrow>
          (case save env output_path wb of
             Inl e \<Rightarrow> \<lparr>exit_status = 1, stdout = [], uncaught = Some e, written = None\<rparr>
           | Inr wb' \<Rightarrow>
               (case write_stdout env (''Template saved to: '' @ output_path) of
                  Printed \<Rightarrow>
                    \<lparr>exit_status = 0, stdout = [''Template saved to: '' @ output_path],
                     uncaught = None, written = Some (output_path, wb')\<rparr>
                | PrintRaised msg \<Rightarrow>
                    \<lparr>exit_status = 1, stdout = [], uncaught = Some (OSError msg),
                     written = Some (output_path, wb')\<rparr>
                | FlushFailed \<Rightarrow>
                    \<lparr>exit_status = 120, stdout = [], uncaught = None,
                     written = Some (output_path, wb')\<rparr>)))"

text \<open>
  Four environments to run the script in: a writable directory with a working standard
  output; the same at a later time, with arguments and a variable that the script does
  not read; a directory that cannot be written; and a writable directory with standard
  output on a full device.
\<close>

definition plain_env :: environment where
  "plain_env =
     \<lparr>argv = [''create_template.py''], environ = [], clock = 1762300800,
      write_file = (\<lambda>path. None), write_stdout = (\<lambda>line. Printed)\<rparr>"

definition later_env :: environment where
  "later_env =
     \<lparr>argv = [''create_template.py'', ''--sheets'', ''3''],
      environ = [(''HARKNESS_MODE'', ''individual'')], clock = 1762387200,
      write_file = (\<lambda>path. None), write_stdout = (\<lambda>line. Printed)\<rparr>"



subsection \<open>Reading a workbook\<close>

text \<open>
  What a reader of the workbook sees: the cell at a place, its value (\<^verbatim>\<open>None\<close> where
  there is no cell), the last column in use (\<^verbatim>\<open>ws.max_column\<close>), the values of a row
  over the columns in use, and the columns in which a row holds a cell.
\<close>

definition cell_at :: "worksheet \<Rightarrow> int \<Rightarrow> int \<Rightarrow> cell option" where
  "cell_at ws r c = map_of (cells ws) (r, c)"

definition value_at :: "worksheet \<Rightarrow> int \<Rightarrow> int \<Rightarrow> pyval" where
  "value_at ws r c = (case cell_at ws r c of None \<Rightarrow> PyNone | Some cl \<Rightarrow> cell_value cl)"

definition max_column :: "worksheet \<Rightarrow> int" where
  "max_column ws = fold max (map (snd \<circ> fst) (cells ws)) 1"

definition row_values :: "worksheet \<Rightarrow> int \<Rightarrow> pyval list" where
  "row_values ws r = map (value_at ws r) [1..max_column ws]"

definition row_columns :: "worksheet \<Rightarrow> int \<Rightarrow> int list" where
  "row_columns ws r = map snd (filter (\<lambda>k. fst k = r) (map fst (cells ws)))"

text \<open>\<^verbatim>\<open>wb[name]\<close>: the sheet with that title, if there is one.\<close>

definition sheet_named :: "workbook \<Rightarrow> string \<Rightarrow> worksheet option" where
  "sheet_named wb name = find (\<lambda>ws. title ws = name) (sheets wb)"

text \<open>A cell carries the header style profile when all four style objects are on it.\<close>

definition has_header_style :: "cell \<Rightarrow> bool" where
  "has_header_style cl =
     (cell_font cl = Some header_font \<and> cell_fill cl = Some header_fill \<and>
      cell_alignment cl = Some header_align \<and> cell_border cl = Some thin_border)"

definition header_styled :: "worksheet \<Rightarrow> (int \<times> int) list" where
  "header_styled ws = map fst (filter (\<lambda>kc. has_header_style (snd kc)) (cells ws))"

text \<open>The places where some style attribute has been assigned.\<close>

definition styled :: "worksheet \<Rightarrow> (int \<times> int) list" where
  "styled ws =
     map fst (filter (\<lambda>kc. cell_font (snd kc) \<noteq> None \<or> cell_fill (snd kc) \<noteq> None \<or>
                            cell_alignment (snd kc) \<noteq> None \<or> cell_border (snd kc) \<noteq> None)
                (cells ws))"

subsection \<open>The sheets as the specification describes them\<close>

text \<open>
  The specification (section 4.1) describes every tab as one operation,
  \<^verbatim>\<open>addSheet(name, headers, widths, defaultRows?)\<close>. The script has no such function: each
  tab repeats the steps inline. \<open>add_sheet\<close> writes down the sheet the specification's
  words describe, to be compared with what the script's statements build: the headers
  in row 1 in the header style, the default rows below in order, the pane frozen at A2,
  the filter over the header row, the widths by position.
\<close>

definition header_cell :: "string \<Rightarrow> cell" where
  "header_cell h =
     \<lparr>cell_value = PyStr h, cell_data_type = TypeString, cell_font = Some header_font,
      cell_fill = Some header_fill, cell_alignment = Some header_align,
      cell_border = Some thin_border\<rparr>"

definition data_cell :: "string \<Rightarrow> cell" where
  "data_cell v =
     \<lparr>cell_value = PyStr v, cell_data_type = TypeString, cell_font = None,
      cell_fill = None, cell_alignment = None, cell_border = None\<rparr>"

definition row_cells :: "int \<Rightarrow> cell list \<Rightarrow> ((int \<times> int) \<times> cell) list" where
  "row_cells r cs = map (\<lambda>(c, cl). ((r, c), cl)) (py_enumerate cs 1)"

definition add_sheet :: "string \<Rightarrow> string list \<Rightarrow> nat list \<Rightarrow> string list list \<Rightarrow> worksheet" where
  "add_sheet name headers widths default_rows =
     \<lparr>title = name,
      cells = row_cells 1 (map header_cell headers) @
              concat (map (\<lambda>(r, row). row_cells r (map data_cell row))
                        (py_enumerate default_rows 2)),
      current_row = 1 + int (length default_rows),
      freeze_panes = Some ''A2'',
      auto_filter_ref = Some (''A1:'' @ column_letters (int (length headers)) @ ''1''),
      column_dimensions = map (\<lambda>(i, w). (column_letters i, w)) (py_enumerate widths 1)\<rparr>"

text \<open>
  The Prompts tab has one step more: the cells of column B from row 2 on get a wrapped,
  top-aligned alignment.
\<close>

definition wrap_prompt_text :: "worksheet \<Rightarrow> worksheet" where
  "wrap_prompt_text ws =
     ws\<lparr>cells :=
          map (\<lambda>(k, cl). (k, if 2 \<le> fst k \<and> snd k = 2
                               then cl\<lparr>cell_alignment :=
                                        Some \<lparr>horizontal = None, vertical = Some ''top'',
                                              wrap_text = Some True\<rparr>\<rparr>
                               else cl))
            (cells ws)\<rparr>"

text \<open>
  The eight tabs of the script: name, headers, widths, default rows. Six tabs name their
  header and width lists; Settings and Prompts hand a literal header list to
  \<^verbatim>\<open>append\<close> and assign the widths of the columns A and B one by one.
\<close>

definition tabs :: "(string \<times> string list \<times> nat list \<times> string list list) list" where
  "tabs =
     [(''Settings'', [''setting_key'', ''setting_value''], [30, 50], settings_defaults),
      (''Discussions'', disc_headers, disc_widths, []),
      (''Students'', stu_headers, stu_widths, []),
      (''Transcripts'', trans_headers, trans_widths, []),
      (''SpeakerMap'', sm_headers, sm_widths, []),
      (''StudentReports'', rep_headers, rep_widths, []),
      (''Prompts'', [''prompt_name'', ''prompt_text''], [28, 100], prompts),
      (''Courses'', courses_headers, courses_widths, [])]"

text \<open>The workbook of the eight tabs, created at the time \<open>now\<close>.\<close>

definition template :: "nat \<Rightarrow> workbook" where
  "template now =
     \<lparr>sheets =
        map (\<lambda>(name, headers, widths, default_rows).
               if name = ''Prompts'' then wrap_prompt_text (add_sheet name headers widths default_rows)
               else add_sheet name headers widths default_rows) tabs,
      active_sheet_index = 0,
      properties = \<lparr>creator = ''openpyxl'', created = now\<rparr>\<rparr>"

text \<open>The header schemas of the specification, section 6, in the order given there.\<close>

definition spec_headers :: "(string \<times> string list) list" where
  "spec_headers =
     [(''Settings'', [''setting_key'', ''setting_value'']),
      (''Discussions'',
         [''status'', ''next_step'', ''date'', ''section'', ''course'', ''grade'', ''approved'',
          ''group_feedback'', ''canvas_assignment_id'', ''canvas_item_type'', ''discussion_id'',
          ''audio_file_id'', ''error_message'', ''created_at'', ''updated_at'']),
      (''Students'',
         [''name'', ''email'', ''section'', ''course'', ''canvas_user_id'', ''student_id'']),
      (''Transcripts'',
         [''discussion_id'', ''raw_transcript'', ''speaker_map'', ''named_transcript'',
          ''created_at'', ''updated_at'']),
      (''SpeakerMap'',
         [''discussion_id'', ''speaker_label'', ''suggested_name'', ''student_name'',
          ''confirmed'']),
      (''StudentReports'',
         [''student_name'', ''grade'', ''approved'', ''sent'', ''feedback'', ''discussion_id'',
          ''transcript_contributions'', ''participation_summary'', ''student_id'', ''report_id'',
          ''created_at'', ''updated_at'']),
      (''Prompts'', [''prompt_name'', ''prompt_text'']),
      (''Courses'',
         [''course_name'', ''canvas_course_id'', ''canvas_base_url'', ''canvas_item_type''])]"

text \<open>
  The placeholder tokens the specification documents for the prompt texts (section 4.1).
\<close>

definition documented_placeholders :: "string list" where
  "documented_placeholders = [''{transcript}'', ''{grade}'', ''{student_name}'', ''{contributions}'']"

text \<open>
  The example line of the SPEAKER_IDENTIFICATION text (line 181 of the script), from its
  opening to its closing brace.
\<close>

definition json_example :: string where
  \<open>json_example =
     ''{"Speaker 0": "Maria", "Speaker 1": "James", "Speaker 2": "Teacher", "Speaker 3": "?"}''\<close>

text \<open>
  The brace-delimited substrings of a text, left to right: an opening brace, characters
  that are not braces, a closing brace. \<open>open\<close> holds the characters since the last
  opening brace, if one is pending.
\<close>

fun brace_scan :: "string option \<Rightarrow> string \<Rightarrow> string list" where
  "brace_scan open [] = []"
| "brace_scan open (c # cs) =
     (if c = CHR ''{'' then brace_scan (Some [c]) cs
      else if c = CHR ''}'' then
        (case open of
           None \<Rightarrow> brace_scan None cs
         | Some a \<Rightarrow> (a @ [c]) # brace_scan None cs)
      else brace_scan (map_option (\<lambda>a. a @ [c]) open) cs)"

definition brace_spans :: "string \<Rightarrow> string list" where
  "brace_spans s = brace_scan None s"

text \<open>
  A consumer of a prompt text that substitutes every brace-delimited substring: each one
  is replaced by what \<open>f\<close> gives for it, everything else is kept.
\<close>

fun substitute_scan :: "(string \<Rightarrow> string) \<Rightarrow> string option \<Rightarrow> string \<Rightarrow> string" where
  "substitute_scan f open [] = (case open of None \<Rightarrow> [] | Some a \<Rightarrow> a)"
| "substitute_scan f open (c # cs) =
     (if c = CHR ''{'' then
        (case open of None \<Rightarrow> [] | Some a \<Rightarrow> a) @ substitute_scan f (Some [c]) cs
      else if c = CHR ''}'' then
        (case open of
           None \<Rightarrow> c # substitute_scan f None cs
         | Some a \<Rightarrow> f (a @ [c]) @ substitute_scan f None cs)
      else
        (case open of
           None \<Rightarrow> c # substitute_scan f None cs
         | Some a \<Rightarrow> substitute_scan f (Some (a @ [c])) cs))"

definition substitute_braces :: "(string \<Rightarrow> string) \<Rightarrow> string \<Rightarrow> string" where
  "substitute_braces f s = substitute_scan f None s"

text \<open>
  A string that the cell binding stores unchanged as a string value: short enough, free
  of illegal characters, neither a formula nor an error code.
\<close>

definition plain_string :: "string \<Rightarrow> bool" where
  "plain_string s =
     (length s \<le> 32767 \<and> \<not> list_ex illegal_character s \<and>
      \<not> (1 < length s \<and> hd s = CHR ''='') \<and> s \<notin> set ERROR_CODES)"

section \<open>What the script builds\<close>

subsection \<open>Strings that the cell binding accepts\<close>

text \<open>The character tests of the library, read off the bits of a character.\<close>

lemma illegal_character_Char:
  "illegal_character (Char b0 b1 b2 b3 b4 b5 b6 b7) =
     (\<not> b5 \<and> \<not> b6 \<and> \<not> b7 \<and>
      \<not> (\<not> b4 \<and> b3 \<and>
         ((b0 \<and> \<not> b1 \<and> \<not> b2) \<or> (\<not> b0 \<and> b1 \<and> \<not> b2) \<or> (b0 \<and> \<not> b1 \<and> b2))))"
  by (cases b0; cases b1; cases b2; cases b3; cases b4; cases b5; cases b6; cases b7;
      simp add: illegal_character_def)

lemma take_chars_all: "length s \<le> n \<Longrightarrow> take_chars n s = s"
  by (induction s arbitrary: n) auto

lemma new_cell_plain:
  "plain_string s \<Longrightarrow>
   new_cell (PyStr s) = Inr (empty_cell\<lparr>cell_value := PyStr s, cell_data_type := TypeString\<rparr>)"
  by (simp add: plain_string_def new_cell_def check_string_def take_chars_all)

lemma plain_string_Nil: "plain_string []"
  by (simp add: plain_string_def ERROR_CODES_def)

lemma plain_string_Cons:
  "plain_string (c # cs) =
     (length cs < 32767 \<and> \<not> illegal_character c \<and> \<not> list_ex illegal_character cs \<and>
      \<not> (cs \<noteq> [] \<and> c = CHR ''='') \<and> c # cs \<notin> set ERROR_CODES)"
  by (auto simp add: plain_string_def)

lemma plain_speaker_identification: "plain_string speaker_identification_text"
  by (simp add: plain_string_def speaker_identification_text_def illegal_character_Char
      em_dash_def ERROR_CODES_def)

lemma plain_group_feedback: "plain_string group_feedback_text"
  by (simp add: plain_string_def group_feedback_text_def illegal_character_Char
      em_dash_def ERROR_CODES_def)

lemma plain_individual_feedback: "plain_string individual_feedback_text"
  by (simp add: plain_string_def individual_feedback_text_def illegal_character_Char
      em_dash_def ERROR_CODES_def)

subsection \<open>The run of the script, statement by statement\<close>

lemma upto_1_numeral: "[1..numeral n] = 1 # [2..numeral n]"
  by (simp add: upto.simps)

lemmas script_defs =
  build_def tab_settings_def tab_discussions_def tab_students_def tab_transcripts_def
  tab_speakermap_def tab_studentreports_def tab_prompts_def tab_courses_def
  Workbook_def new_worksheet_def active_def on_sheet_def set_title_def create_sheet_def
  check_title_def INVALID_TITLE_CHARS_def avoid_duplicate_name_def sheetnames_def lower_def
  lower_char_def uppercase_def lowercase_def
  append_def for_each_def py_enumerate_def py_range_def style_header_def set_widths_def
  ws_cell_def assign_def set_freeze_panes_def set_auto_filter_ref_def set_column_width_def
  get_column_letter_def column_letters.simps for_iter_rows_def max_row_def
  settings_defaults_def disc_headers_def disc_widths_def stu_headers_def stu_widths_def
  trans_headers_def trans_widths_def sm_headers_def sm_widths_def rep_headers_def
  rep_widths_def prompts_def courses_headers_def courses_widths_def

lemmas sheet_defs =
  template_def tabs_def add_sheet_def wrap_prompt_text_def row_cells_def header_cell_def
  data_cell_def empty_cell_def

text \<open>
  No statement before \<^verbatim>\<open>wb.save\<close> raises, and the workbook that reaches \<^verbatim>\<open>save\<close> is
  the eight sheets of \<open>tabs\<close>, each as \<open>add_sheet\<close> describes it.
\<close>

lemma build_eq: "build env = Inr (template (clock env))"
  by (simp add: script_defs sheet_defs upto_1_numeral new_cell_plain plain_string_Nil
      plain_string_Cons plain_speaker_identification plain_group_feedback
      plain_individual_feedback illegal_character_Char ERROR_CODES_def)

lemmas template_defs =
  template_def tabs_def add_sheet_def wrap_prompt_text_def row_cells_def header_cell_def
  data_cell_def py_enumerate_def settings_defaults_def disc_headers_def disc_widths_def
  stu_headers_def stu_widths_def trans_headers_def trans_widths_def sm_headers_def
  sm_widths_def rep_headers_def rep_widths_def prompts_def courses_headers_def
  courses_widths_def column_letters.simps uppercase_def upto_1_numeral

lemmas read_defs =
  cell_at_def value_at_def max_column_def max_row_def row_values_def row_columns_def
  header_styled_def has_header_style_def sheetnames_def sheet_named_def

subsection \<open>Sheets and header rows\<close>

text \<open>
  C1. Every one of the eight sheets of the workbook has, in row 1, exactly the headers
  that section 6 of the specification lists for it, value for value and in order
  (Discussions its 15 headers from status to updated_at, Students its 6 from name to
  student_id, Courses its 4 from course_name to canvas_item_type).
\<close>

theorem header_rows_equal_spec:
  "\<exists>wb. build env = Inr wb \<and>
     map (\<lambda>ws. (title ws, row_values ws 1)) (sheets wb) =
     map (\<lambda>(name, headers). (name, map PyStr headers)) spec_headers"
  by (simp add: build_eq template_defs read_defs spec_headers_def)

text \<open>
  C2. The workbook holds exactly eight sheets, in the order Settings, Discussions,
  Students, Transcripts, SpeakerMap, StudentReports, Prompts, Courses, and each of these
  names occurs exactly once.
\<close>

theorem eight_sheets_in_order:
  "\<exists>wb. build env = Inr wb \<and> length (sheets wb) = 8 \<and>
     sheetnames wb =
       [''Settings'', ''Discussions'', ''Students'', ''Transcripts'', ''SpeakerMap'',
        ''StudentReports'', ''Prompts'', ''Courses''] \<and>
     distinct (sheetnames wb) \<and>
     map (count_list (sheetnames wb))
       [''Settings'', ''Discussions'', ''Students'', ''Transcripts'', ''SpeakerMap'',
        ''StudentReports'', ''Prompts'', ''Courses''] = [1, 1, 1, 1, 1, 1, 1, 1]"
  by (simp add: build_eq template_defs read_defs)

subsection \<open>Default rows\<close>

lemma subject_template_contains_date:
  "contains ''Harkness Discussion Report - {date}'' ''{date}''"
  by (simp add: contains_def sublist_code(3))

text \<open>
  C3. In the Settings sheet, rows 2 to 13 are the twelve default key/value pairs in the
  order of the script, and there is no row after them: mode=group, distribute_email=true,
  distribute_canvas=false, grade_scale=0-100, teacher_email, teacher_name,
  email_subject_template (its value contains the placeholder {date}),
  gemini_model=gemini-2.0-flash, elevenlabs_model=scribe_v2, canvas_course_id,
  canvas_base_url, canvas_item_type=assignment. Row 2 is mode, group.
\<close>

theorem settings_default_rows:
  "\<exists>wb ws. build env = Inr wb \<and> sheet_named wb ''Settings'' = Some ws \<and> max_row ws = 13 \<and>
     map (row_values ws) [2..13] =
       map (map PyStr)
         [[''mode'', ''group''],
          [''distribute_email'', ''true''],
          [''distribute_canvas'', ''false''],
          [''grade_scale'', ''0-100''],
          [''teacher_email'', ''''],
          [''teacher_name'', ''''],
          [''email_subject_template'', ''Harkness Discussion Report - {date}''],
          [''gemini_model'', ''gemini-2.0-flash''],
          [''elevenlabs_model'', ''scribe_v2''],
          [''canvas_course_id'', ''''],
          [''canvas_base_url'', ''''],
          [''canvas_item_type'', ''assignment'']] \<and>
     row_values ws 2 = [PyStr ''mode'', PyStr ''group''] \<and>
     (\<exists>v. value_at ws 8 2 = PyStr v \<and> contains v ''{date}'')"
  using subject_template_contains_date by (simp add: build_eq template_defs read_defs)

lemma speaker_identification_contains:
  "contains speaker_identification_text ''{transcript}''"
  by (simp add: contains_def sublist_code(3) speaker_identification_text_def em_dash_def)

lemma group_feedback_contains:
  "contains group_feedback_text ''{grade}'' \<and> contains group_feedback_text ''{transcript}''"
  by (simp add: contains_def sublist_code(3) group_feedback_text_def em_dash_def)

lemma individual_feedback_contains:
  "contains individual_feedback_text ''{student_name}'' \<and>
   contains individual_feedback_text ''{grade}'' \<and>
   contains individual_feedback_text ''{contributions}'' \<and>
   contains individual_feedback_text ''{transcript}''"
  by (simp add: contains_def sublist_code(3) individual_feedback_text_def em_dash_def)

text \<open>
  C4. In the Prompts sheet, rows 2 to 4 are exactly three prompts, named
  SPEAKER_IDENTIFICATION, GROUP_FEEDBACK and INDIVIDUAL_FEEDBACK in column A (row 2
  column A is SPEAKER_IDENTIFICATION), and there is no row after them. The text of each
  contains its placeholder tokens: SPEAKER_IDENTIFICATION contains {transcript};
  GROUP_FEEDBACK contains {grade} and {transcript}; INDIVIDUAL_FEEDBACK contains
  {student_name}, {grade}, {contributions} and {transcript}.
\<close>

theorem prompts_rows:
  "\<exists>wb ws t1 t2 t3. build env = Inr wb \<and> sheet_named wb ''Prompts'' = Some ws \<and> max_row ws = 4 \<and>
     map (row_values ws) [2..4] =
       [[PyStr ''SPEAKER_IDENTIFICATION'', PyStr t1],
        [PyStr ''GROUP_FEEDBACK'', PyStr t2],
        [PyStr ''INDIVIDUAL_FEEDBACK'', PyStr t3]] \<and>
     value_at ws 2 1 = PyStr ''SPEAKER_IDENTIFICATION'' \<and>
     contains t1 ''{transcript}'' \<and>
     contains t2 ''{grade}'' \<and> contains t2 ''{transcript}'' \<and>
     contains t3 ''{student_name}'' \<and> contains t3 ''{grade}'' \<and>
     contains t3 ''{contributions}'' \<and> contains t3 ''{transcript}''"
  using speaker_identification_contains group_feedback_contains individual_feedback_contains
  by (simp add: build_eq template_defs read_defs)

text \<open>
  C5. In every sheet of the workbook, every row below the header holds a cell in exactly
  the columns in which the header row holds one, so every default row has as many values
  as the sheet has header columns. Settings has 2 header columns and 12 default rows,
  Prompts 2 header columns and 3 default rows, and the other six sheets have no row
  below the header. In the script, every row of \<open>settings_defaults\<close> and of \<open>prompts\<close>
  has 2 values.
\<close>

theorem default_rows_fill_header_columns:
  "\<exists>wb. build env = Inr wb \<and>
     (\<forall>ws \<in> set (sheets wb). \<forall>r \<in> set [2..max_row ws]. row_columns ws r = row_columns ws 1) \<and>
     map (\<lambda>ws. (title ws, length (row_columns ws 1), max_row ws - 1)) (sheets wb) =
       [(''Settings'', 2, 12), (''Discussions'', 15, 0), (''Students'', 6, 0),
        (''Transcripts'', 6, 0), (''SpeakerMap'', 5, 0), (''StudentReports'', 12, 0),
        (''Prompts'', 2, 3), (''Courses'', 4, 0)] \<and>
     list_all (\<lambda>row. length row = 2) settings_defaults \<and>
     list_all (\<lambda>row. length row = 2) prompts"
  by (simp add: build_eq template_defs read_defs del: set_upto)

theorem default_rows_fill_header_columns_witness:
  "\<exists>wb. build plain_env = Inr wb \<and> title (sheets wb ! 0) = ''Settings'' \<and>
     row_columns (sheets wb ! 0) 1 = [1, 2] \<and>
     row_columns (sheets wb ! 0) 2 = row_columns (sheets wb ! 0) 1 \<and>
     row_columns (sheets wb ! 0) 13 = row_columns (sheets wb ! 0) 1"
proof -
  from default_rows_fill_header_columns [of plain_env] obtain wb where
    b: "build plain_env = Inr wb" and
    rows: "\<forall>ws \<in> set (sheets wb). \<forall>r \<in> set [2..max_row ws]. row_columns ws r = row_columns ws 1"
    by blast
  from b have wb: "wb = template (clock plain_env)" by (simp add: build_eq)
  have mem: "sheets wb ! 0 \<in> set (sheets wb)"
    by (simp add: wb template_def tabs_def)
  have mr: "max_row (sheets wb ! 0) = 13" and r1: "row_columns (sheets wb ! 0) 1 = [1, 2]"
    and t: "title (sheets wb ! 0) = ''Settings''"
    by (simp_all add: wb template_defs read_defs)
  from rows mem mr
  have "row_columns (sheets wb ! 0) 2 = row_columns (sheets wb ! 0) 1"
       "row_columns (sheets wb ! 0) 13 = row_columns (sheets wb ! 0) 1"
    by simp_all
  with b r1 t show ?thesis by blast
qed

subsection \<open>The header styling function\<close>

text \<open>
  \<^verbatim>\<open>style_header\<close> on any worksheet. One pass of its loop makes sure the cell of row 1
  in that column exists and puts the four style objects on it; the value of the cell and
  every other cell stay as they are.
\<close>

lemma style_cell_step:
  assumes "1 \<le> col"
  shows "\<exists>ws1.
     seq [ws_cell 1 col,
          assign (1, col) (\<lambda>c. c\<lparr>cell_font := Some header_font\<rparr>),
          assign (1, col) (\<lambda>c. c\<lparr>cell_fill := Some header_fill\<rparr>),
          assign (1, col) (\<lambda>c. c\<lparr>cell_alignment := Some header_align\<rparr>),
          assign (1, col) (\<lambda>c. c\<lparr>cell_border := Some thin_border\<rparr>)] ws = Inr ws1 \<and>
     title ws1 = title ws \<and> freeze_panes ws1 = freeze_panes ws \<and>
     auto_filter_ref ws1 = auto_filter_ref ws \<and>
     column_dimensions ws1 = column_dimensions ws \<and>
     (\<forall>r c. cell_at ws1 r c =
        (if r = 1 \<and> c = col
         then Some ((case cell_at ws 1 col of None \<Rightarrow> empty_cell | Some cl \<Rightarrow> cl)
                \<lparr>cell_font := Some header_font, cell_fill := Some header_fill,
                 cell_alignment := Some header_align, cell_border := Some thin_border\<rparr>)
         else cell_at ws r c))"
  using assms
  by (cases "map_of (cells ws) (1, col)")
     (auto simp add: ws_cell_def assign_def cell_at_def map_of_map_entry update_conv')

lemma style_loop:
  assumes "\<forall>c \<in> set cols. 1 \<le> c"
  shows "\<exists>ws'.
     for_each cols
       (\<lambda>col. seq [ws_cell 1 col,
          assign (1, col) (\<lambda>c. c\<lparr>cell_font := Some header_font\<rparr>),
          assign (1, col) (\<lambda>c. c\<lparr>cell_fill := Some header_fill\<rparr>),
          assign (1, col) (\<lambda>c. c\<lparr>cell_alignment := Some header_align\<rparr>),
          assign (1, col) (\<lambda>c. c\<lparr>cell_border := Some thin_border\<rparr>)]) ws = Inr ws' \<and>
     title ws' = title ws \<and> freeze_panes ws' = freeze_panes ws \<and>
     auto_filter_ref ws' = auto_filter_ref ws \<and>
     column_dimensions ws' = column_dimensions ws \<and>
     (\<forall>r c. cell_at ws' r c =
        (if r = 1 \<and> c \<in> set cols
         then Some ((case cell_at ws 1 c of None \<Rightarrow> empty_cell | Some cl \<Rightarrow> cl)
                \<lparr>cell_font := Some header_font, cell_fill := Some header_fill,
                 cell_alignment := Some header_align, cell_border := Some thin_border\<rparr>)
         else cell_at ws r c))"
  using assms
proof (induction cols arbitrary: ws)
  case Nil
  then show ?case by (simp add: for_each_def)
next
  case (Cons col cols)
  from Cons.prems have "1 \<le> col" and rest: "\<forall>c \<in> set cols. 1 \<le> c" by simp_all
  from style_cell_step [OF \<open>1 \<le> col\<close>, of ws] obtain ws1 where
    s1: "seq [ws_cell 1 col,
          assign (1, col) (\<lambda>c. c\<lparr>cell_font := Some header_font\<rparr>),
          assign (1, col) (\<lambda>c. c\<lparr>cell_fill := Some header_fill\<rparr>),
          assign (1, col) (\<lambda>c. c\<lparr>cell_alignment := Some header_align\<rparr>),
          assign (1, col) (\<lambda>c. c\<lparr>cell_border := Some thin_border\<rparr>)] ws = Inr ws1"
    and f1: "title ws1 = title ws" "freeze_panes ws1 = freeze_panes ws"
      "auto_filter_ref ws1 = auto_filter_ref ws" "column_dimensions ws1 = column_dimensions ws"
    and c1: "\<forall>r c. cell_at ws1 r c =
        (if r = 1 \<and> c = col
         then Some ((case cell_at ws 1 col of None \<Rightarrow> empty_cell | Some cl \<Rightarrow> cl)
                \<lparr>cell_font := Some header_font, cell_fill := Some header_fill,
                 cell_alignment := Some header_align, cell_border := Some thin_border\<rparr>)
         else cell_at ws r c)"
    by blast
  from Cons.IH [OF rest, of ws1] obtain ws' where
    s2: "for_each cols
       (\<lambda>col. seq [ws_cell 1 col,
          assign (1, col) (\<lambda>c. c\<lparr>cell_font := Some header_font\<rparr>),
          assign (1, col) (\<lambda>c. c\<lparr>cell_fill := Some header_fill\<rparr>),
          assign (1, col) (\<lambda>c. c\<lparr>cell_alignment := Some header_align\<rparr>),
          assign (1, col) (\<lambda>c. c\<lparr>cell_border := Some thin_border\<rparr>)]) ws1 = Inr ws'"
    and f2: "title ws' = title ws1" "freeze_panes ws' = freeze_panes ws1"
      "auto_filter_ref ws' = auto_filter_ref ws1" "column_dimensions ws' = column_dimensions ws1"
    and c2: "\<forall>r c. cell_at ws' r c =
        (if r = 1 \<and> c \<in> set cols
         then Some ((case cell_at ws1 1 c of None \<Rightarrow> empty_cell | Some cl \<Rightarrow> cl)
                \<lparr>cell_font := Some header_font, cell_fill := Some header_fill,
                 cell_alignment := Some header_align, cell_border := Some thin_border\<rparr>)
         else cell_at ws1 r c)"
    by blast
  from s1 s2 have run: "for_each (col # cols)
       (\<lambda>col. seq [ws_cell 1 col,
          assign (1, col) (\<lambda>c. c\<lparr>cell_font := Some header_font\<rparr>),
          assign (1, col) (\<lambda>c. c\<lparr>cell_fill := Some header_fill\<rparr>),
          assign (1, col) (\<lambda>c. c\<lparr>cell_alignment := Some header_align\<rparr>),
          assign (1, col) (\<lambda>c. c\<lparr>cell_border := Some thin_border\<rparr>)]) ws = Inr ws'"
    by (simp add: for_each_def)
  have cells': "\<forall>r c. cell_at ws' r c =
        (if r = 1 \<and> c \<in> set (col # cols)
         then Some ((case cell_at ws 1 c of None \<Rightarrow> empty_cell | Some cl \<Rightarrow> cl)
                \<lparr>cell_font := Some header_font, cell_fill := Some header_fill,
                 cell_alignment := Some header_align, cell_border := Some thin_border\<rparr>)
         else cell_at ws r c)"
    by (simp add: c1 c2)
  from f1 f2 have fields: "title ws' = title ws" "freeze_panes ws' = freeze_panes ws"
      "auto_filter_ref ws' = auto_filter_ref ws" "column_dimensions ws' = column_dimensions ws"
    by simp_all
  from run fields cells' show ?case by blast
qed

text \<open>
  For a column count from 1 to 18278 the function returns: the cells of row 1 in the
  columns 1 to \<open>num_cols\<close> carry the header style and keep their values (a cell that was
  missing is created empty), no other cell changes, the pane is frozen at A2 and the
  filter is set on A1 to the letter of \<open>num_cols\<close> in row 1. For any other count the
  column letter does not exist and the function raises \<^verbatim>\<open>ValueError\<close>.
\<close>

lemma style_header_effect:
  assumes "1 \<le> num_cols" and "num_cols \<le> 18278"
  shows "\<exists>ws'. style_header num_cols ws = Inr ws' \<and>
     title ws' = title ws \<and> column_dimensions ws' = column_dimensions ws \<and>
     freeze_panes ws' = Some ''A2'' \<and>
     auto_filter_ref ws' = Some (''A1:'' @ column_letters num_cols @ ''1'') \<and>
     (\<forall>c. 1 \<le> c \<and> c \<le> num_cols \<longrightarrow>
        (\<exists>cl. cell_at ws' 1 c = Some cl \<and> has_header_style cl \<and>
              cell_value cl = value_at ws 1 c)) \<and>
     (\<forall>r c. \<not> (r = 1 \<and> 1 \<le> c \<and> c \<le> num_cols) \<longrightarrow> cell_at ws' r c = cell_at ws r c)"
proof -
  have "\<forall>c \<in> set (py_range 1 (num_cols + 1)). 1 \<le> c"
    by (simp add: py_range_def)
  from style_loop [OF this, of ws] obtain ws1 where
    s1: "for_each (py_range 1 (num_cols + 1))
       (\<lambda>col. seq [ws_cell 1 col,
          assign (1, col) (\<lambda>c. c\<lparr>cell_font := Some header_font\<rparr>),
          assign (1, col) (\<lambda>c. c\<lparr>cell_fill := Some header_fill\<rparr>),
          assign (1, col) (\<lambda>c. c\<lparr>cell_alignment := Some header_align\<rparr>),
          assign (1, col) (\<lambda>c. c\<lparr>cell_border := Some thin_border\<rparr>)]) ws = Inr ws1"
    and f1: "title ws1 = title ws" "column_dimensions ws1 = column_dimensions ws"
    and c1: "\<forall>r c. cell_at ws1 r c =
        (if r = 1 \<and> c \<in> set (py_range 1 (num_cols + 1))
         then Some ((case cell_at ws 1 c of None \<Rightarrow> empty_cell | Some cl \<Rightarrow> cl)
                \<lparr>cell_font := Some header_font, cell_fill := Some header_fill,
                 cell_alignment := Some header_align, cell_border := Some thin_border\<rparr>)
         else cell_at ws r c)"
    by blast
  define ws' where
    "ws' = ws1\<lparr>freeze_panes := Some ''A2'',
                auto_filter_ref := Some (''A1:'' @ column_letters num_cols @ ''1'')\<rparr>"
  from s1 assms have run: "style_header num_cols ws = Inr ws'"
    by (simp add: ws'_def style_header_def set_freeze_panes_def set_auto_filter_ref_def
        get_column_letter_def)
  have same: "cell_at ws' = cell_at ws1"
    by (simp add: ws'_def cell_at_def fun_eq_iff)
  from f1 have fields: "title ws' = title ws" "column_dimensions ws' = column_dimensions ws"
      "freeze_panes ws' = Some ''A2''"
      "auto_filter_ref ws' = Some (''A1:'' @ column_letters num_cols @ ''1'')"
    by (simp_all add: ws'_def)
  have styled_cells: "\<forall>c. 1 \<le> c \<and> c \<le> num_cols \<longrightarrow>
        (\<exists>cl. cell_at ws' 1 c = Some cl \<and> has_header_style cl \<and>
              cell_value cl = value_at ws 1 c)"
    unfolding same
    by (auto simp add: c1 py_range_def has_header_style_def value_at_def empty_cell_def
        split: option.splits)
  have others: "\<forall>r c. \<not> (r = 1 \<and> 1 \<le> c \<and> c \<le> num_cols) \<longrightarrow>
        cell_at ws' r c = cell_at ws r c"
    unfolding same by (auto simp add: c1 py_range_def)
  from run fields styled_cells others show ?thesis by blast
qed

lemma style_header_raises:
  "\<not> (1 \<le> num_cols \<and> num_cols \<le> 18278) \<Longrightarrow> style_header num_cols ws = Inl ValueError"
proof -
  assume bad: "\<not> (1 \<le> num_cols \<and> num_cols \<le> 18278)"
  have "\<forall>c \<in> set (py_range 1 (num_cols + 1)). 1 \<le> c"
    by (simp add: py_range_def)
  from style_loop [OF this, of ws] obtain ws1 where
    "for_each (py_range 1 (num_cols + 1))
       (\<lambda>col. seq [ws_cell 1 col,
          assign (1, col) (\<lambda>c. c\<lparr>cell_font := Some header_font\<rparr>),
          assign (1, col) (\<lambda>c. c\<lparr>cell_fill := Some header_fill\<rparr>),
          assign (1, col) (\<lambda>c. c\<lparr>cell_alignment := Some header_align\<rparr>),
          assign (1, col) (\<lambda>c. c\<lparr>cell_border := Some thin_border\<rparr>)]) ws = Inr ws1"
    by blast
  with bad show ?thesis
    by (simp add: style_header_def set_freeze_panes_def get_column_letter_def)
qed

subsection \<open>The steps of every tab\<close>

text \<open>
  C6. Every sheet is built by the same steps: the header row is written at row 1; the
  header style profile is on every header cell and on no other cell (the cells that
  carry it are exactly the first cells of row 1, one per header); the pane is frozen at
  A2, so row 1 stays in view; the filter reference is exactly A1 to the last header
  column in row 1; the column widths are those of the sheet's widths list, by position,
  a list as long as the header list; and the default rows follow in order from row 2,
  with nothing after them.
\<close>

theorem every_tab_follows_add_sheet:
  "\<exists>wb. build env = Inr wb \<and> length (sheets wb) = length tabs \<and>
     (\<forall>(ws, name, headers, widths, default_rows) \<in> set (zip (sheets wb) tabs).
        title ws = name \<and>
        row_values ws 1 = map PyStr headers \<and>
        header_styled ws = map (Pair 1) [1..int (length headers)] \<and>
        freeze_panes ws = Some ''A2'' \<and>
        auto_filter_ref ws = Some (''A1:'' @ column_letters (int (length headers)) @ ''1'') \<and>
        length widths = length headers \<and>
        column_dimensions ws = zip (map column_letters [1..int (length widths)]) widths \<and>
        max_row ws = 1 + int (length default_rows) \<and>
        map (row_values ws) [2..max_row ws] = map (map PyStr) default_rows)"
  by (simp add: build_eq template_defs read_defs header_font_def header_fill_def
      header_align_def thin_border_def)

theorem every_tab_follows_add_sheet_witness:
  "\<exists>wb. build plain_env = Inr wb \<and>
     title (sheets wb ! 1) = ''Discussions'' \<and>
     row_values (sheets wb ! 1) 1 = map PyStr disc_headers \<and>
     header_styled (sheets wb ! 1) = map (Pair 1) [1..15] \<and>
     freeze_panes (sheets wb ! 1) = Some ''A2'' \<and>
     auto_filter_ref (sheets wb ! 1) = Some ''A1:O1'' \<and>
     column_dimensions (sheets wb ! 1) =
       zip (map (\<lambda>c. [c]) ''ABCDEFGHIJKLMNO'')
           [12, 30, 12, 12, 14, 8, 10, 40, 18, 14, 18, 18, 30, 18, 18] \<and>
     max_row (sheets wb ! 1) = 1"
proof -
  from every_tab_follows_add_sheet [of plain_env] obtain wb where
    b: "build plain_env = Inr wb" and
    len: "length (sheets wb) = length tabs" and
    each: "\<forall>(ws, name, headers, widths, default_rows) \<in> set (zip (sheets wb) tabs).
        title ws = name \<and>
        row_values ws 1 = map PyStr headers \<and>
        header_styled ws = map (Pair 1) [1..int (length headers)] \<and>
        freeze_panes ws = Some ''A2'' \<and>
        auto_filter_ref ws = Some (''A1:'' @ column_letters (int (length headers)) @ ''1'') \<and>
        length widths = length headers \<and>
        column_dimensions ws = zip (map column_letters [1..int (length widths)]) widths \<and>
        max_row ws = 1 + int (length default_rows) \<and>
        map (row_values ws) [2..max_row ws] = map (map PyStr) default_rows"
    by blast
  have t1: "tabs ! 1 = (''Discussions'', disc_headers, disc_widths, [])"
    by (simp add: tabs_def)
  from len have "(sheets wb ! 1, tabs ! 1) \<in> set (zip (sheets wb) tabs)"
    by (simp add: in_set_zip tabs_def) (rule exI [of _ 1], simp)
  with each t1 have
    "title (sheets wb ! 1) = ''Discussions'' \<and>
     row_values (sheets wb ! 1) 1 = map PyStr disc_headers \<and>
     header_styled (sheets wb ! 1) = map (Pair 1) [1..int (length disc_headers)] \<and>
     freeze_panes (sheets wb ! 1) = Some ''A2'' \<and>
     auto_filter_ref (sheets wb ! 1) =
       Some (''A1:'' @ column_letters (int (length disc_headers)) @ ''1'') \<and>
     column_dimensions (sheets wb ! 1) =
       zip (map column_letters [1..int (length disc_widths)]) disc_widths \<and>
     max_row (sheets wb ! 1) = 1"
    by fastforce
  with b show ?thesis
    by (intro exI [of _ wb])
       (simp add: disc_headers_def disc_widths_def column_letters.simps uppercase_def
          upto_1_numeral)
qed

subsection \<open>Runs\<close>

lemma main_written:
  "write_file env output_path = None \<Longrightarrow>
   written (main env) = Some (output_path, template (clock env))"
  by (simp add: main_def save_def build_eq split: print_outcome.split)

text \<open>
  C7. The generator is deterministic over the content it writes. Take any two runs,
  whatever their command lines, environment variables, clocks and standard outputs:
  both build a workbook, the two workbooks have the same sheets in the same order with
  the same value in every cell, and when both runs can write the output file these are
  the workbooks written. Nothing a run can read from outside reaches a sheet name or a
  cell; the clock reaches only the creation time in the document properties.
\<close>

theorem runs_agree:
  "\<exists>wb1 wb2. build e1 = Inr wb1 \<and> build e2 = Inr wb2 \<and>
     sheetnames wb1 = sheetnames wb2 \<and>
     map (\<lambda>ws. map (\<lambda>(k, cl). (k, cell_value cl)) (cells ws)) (sheets wb1) =
     map (\<lambda>ws. map (\<lambda>(k, cl). (k, cell_value cl)) (cells ws)) (sheets wb2) \<and>
     sheets wb1 = sheets wb2 \<and>
     (write_file e1 output_path = None \<and> write_file e2 output_path = None \<longrightarrow>
        written (main e1) = Some (output_path, wb1) \<and>
        written (main e2) = Some (output_path, wb2))"
proof -
  have same: "sheets (template (clock e1)) = sheets (template (clock e2))"
    by (simp add: template_def)
  show ?thesis
    by (intro exI [of _ "template (clock e1)"] exI [of _ "template (clock e2)"])
       (simp add: build_eq main_written sheetnames_def same)
qed

theorem runs_agree_witness:
  "\<exists>wb1 wb2. build plain_env = Inr wb1 \<and> build later_env = Inr wb2 \<and>
     created (properties wb1) = 1762300800 \<and> created (properties wb2) = 1762387200 \<and>
     wb1 \<noteq> wb2 \<and>
     sheetnames wb1 = sheetnames wb2 \<and> sheets wb1 = sheets wb2 \<and>
     written (main plain_env) = Some (output_path, wb1) \<and>
     written (main later_env) = Some (output_path, wb2)"
proof -
  from runs_agree [of plain_env later_env] obtain wb1 wb2 where
    b1: "build plain_env = Inr wb1" and b2: "build later_env = Inr wb2" and
    names: "sheetnames wb1 = sheetnames wb2" and content: "sheets wb1 = sheets wb2" and
    files: "write_file plain_env output_path = None \<and> write_file later_env output_path = None \<longrightarrow>
        written (main plain_env) = Some (output_path, wb1) \<and>
        written (main later_env) = Some (output_path, wb2)"
    by blast
  from b1 have w1: "wb1 = template 1762300800"
    by (simp add: build_eq plain_env_def)
  from b2 have w2: "wb2 = template 1762387200"
    by (simp add: build_eq later_env_def)
  have times: "created (properties wb1) = 1762300800" "created (properties wb2) = 1762387200"
    by (simp_all add: w1 w2 template_def)
  then have different: "wb1 \<noteq> wb2" by auto
  have "write_file plain_env output_path = None \<and> write_file later_env output_path = None"
    by (simp add: plain_env_def later_env_def)
  with files have
    "written (main plain_env) = Some (output_path, wb1)"
    "written (main later_env) = Some (output_path, wb2)"
    by simp_all
  with b1 b2 times different names content show ?thesis by blast
qed




subsection \<open>What the default values are\<close>

lemma speaker_identification_spans:
  "brace_spans speaker_identification_text = [json_example, ''{transcript}'']"
  by (simp add: brace_spans_def speaker_identification_text_def json_example_def em_dash_def)

lemma speaker_identification_contains_example:
  "contains speaker_identification_text json_example"
  by (simp add: contains_def sublist_code(3) speaker_identification_text_def json_example_def
      em_dash_def)

lemma speaker_identification_split:
  "speaker_identification_text =
     take 732 speaker_identification_text @ json_example @
     ([CHR 10, CHR 10] @ ''Transcript excerpt:'' @ [CHR 10]) @ ''{transcript}'' @
     ([CHR 10, CHR 10] @ ''JSON mapping:'')"
  by (simp add: speaker_identification_text_def json_example_def em_dash_def)

lemma speaker_identification_substituted:
  "substitute_braces f speaker_identification_text =
     take 732 speaker_identification_text @ f json_example @
     ([CHR 10, CHR 10] @ ''Transcript excerpt:'' @ [CHR 10]) @ f ''{transcript}'' @
     ([CHR 10, CHR 10] @ ''JSON mapping:'')"
  by (simp add: substitute_braces_def speaker_identification_text_def json_example_def
      em_dash_def)

text \<open>
  C9. The SPEAKER_IDENTIFICATION text stored in the Prompts sheet contains a
  brace-delimited substring that is none of the documented placeholder tokens: the JSON
  example of its "Example format" line. Its brace-delimited substrings are that example
  and {transcript}, so a consumer that substitutes every brace-delimited substring
  replaces the example as well, a part of the text outside {transcript}.
\<close>

theorem speaker_prompt_has_other_braces:
  "\<exists>wb ws t before middle after.
     build env = Inr wb \<and> sheet_named wb ''Prompts'' = Some ws \<and>
     value_at ws 2 1 = PyStr ''SPEAKER_IDENTIFICATION'' \<and> value_at ws 2 2 = PyStr t \<and>
     contains t json_example \<and>
     hd json_example = CHR ''{'' \<and> last json_example = CHR ''}'' \<and>
     json_example \<notin> set documented_placeholders \<and>
     brace_spans t = [json_example, ''{transcript}''] \<and>
     t = before @ json_example @ middle @ ''{transcript}'' @ after \<and>
     (\<forall>f. substitute_braces f t = before @ f json_example @ middle @ f ''{transcript}'' @ after)"
proof -
  have sheet: "sheet_named (template (clock env)) ''Prompts'' = Some (sheets (template (clock env)) ! 6)"
    and name: "value_at (sheets (template (clock env)) ! 6) 2 1 = PyStr ''SPEAKER_IDENTIFICATION''"
    and stored: "value_at (sheets (template (clock env)) ! 6) 2 2 = PyStr speaker_identification_text"
    by (simp_all add: template_defs read_defs)
  have braces: "hd json_example = CHR ''{'' \<and> last json_example = CHR ''}'' \<and>
      json_example \<notin> set documented_placeholders"
    by (simp add: json_example_def documented_placeholders_def)
  show ?thesis
    using build_eq [of env] sheet name stored braces speaker_identification_contains_example
      speaker_identification_spans speaker_identification_split
      speaker_identification_substituted
    by blast
qed

text \<open>
  C10. In the default rows of the Settings sheet, the value of teacher_email,
  teacher_name, canvas_course_id and canvas_base_url is the empty string, and the value
  cell of every default row holds a string with the string data type, never a number or
  a boolean (so true, false and 0-100 are text).
\<close>

theorem settings_values_are_strings:
  "\<exists>wb ws. build env = Inr wb \<and> sheet_named wb ''Settings'' = Some ws \<and>
     map (\<lambda>r. (value_at ws r 1, value_at ws r 2)) [6, 7, 11, 12] =
       [(PyStr ''teacher_email'', PyStr ''''), (PyStr ''teacher_name'', PyStr ''''),
        (PyStr ''canvas_course_id'', PyStr ''''), (PyStr ''canvas_base_url'', PyStr '''')] \<and>
     (\<forall>r \<in> set [2..max_row ws].
        \<exists>cl s. cell_at ws r 2 = Some cl \<and> cell_value cl = PyStr s \<and>
               cell_data_type cl = TypeString)"
  by (simp add: build_eq template_defs read_defs del: set_upto)

theorem settings_values_are_strings_witness:
  "\<exists>wb cl3 cl5. build plain_env = Inr wb \<and>
     cell_at (sheets wb ! 0) 3 2 = Some cl3 \<and> cell_value cl3 = PyStr ''true'' \<and>
     cell_data_type cl3 = TypeString \<and>
     cell_at (sheets wb ! 0) 5 2 = Some cl5 \<and> cell_value cl5 = PyStr ''0-100'' \<and>
     cell_data_type cl5 = TypeString"
proof -
  from settings_values_are_strings [of plain_env] obtain wb ws where
    b: "build plain_env = Inr wb" and
    s: "sheet_named wb ''Settings'' = Some ws" and
    strs: "\<forall>r \<in> set [2..max_row ws].
        \<exists>cl s. cell_at ws r 2 = Some cl \<and> cell_value cl = PyStr s \<and>
               cell_data_type cl = TypeString"
    by blast
  from b have wb: "wb = template (clock plain_env)" by (simp add: build_eq)
  from s have ws: "ws = sheets wb ! 0"
    by (simp add: wb template_def tabs_def sheet_named_def add_sheet_def)
  have mr: "max_row (sheets wb ! 0) = 13"
    by (simp add: wb template_defs read_defs)
  have v3: "value_at (sheets wb ! 0) 3 2 = PyStr ''true''"
    and v5: "value_at (sheets wb ! 0) 5 2 = PyStr ''0-100''"
    by (simp_all add: wb template_defs read_defs)
  from strs ws mr obtain cl3 s3 where
    c3: "cell_at (sheets wb ! 0) 3 2 = Some cl3" "cell_value cl3 = PyStr s3"
        "cell_data_type cl3 = TypeString"
    by fastforce
  from strs ws mr obtain cl5 s5 where
    c5: "cell_at (sheets wb ! 0) 5 2 = Some cl5" "cell_value cl5 = PyStr s5"
        "cell_data_type cl5 = TypeString"
    by fastforce
  from c3 v3 have "cell_value cl3 = PyStr ''true''" by (simp add: value_at_def)
  moreover from c5 v5 have "cell_value cl5 = PyStr ''0-100''" by (simp add: value_at_def)
  ultimately show ?thesis using b c3 c5 by blast
qed

end
